theory Spec2Isabelle
  imports Main "HOL-Library.AList"
begin

section \<open>Shared types\<close>

text \<open>
  Errors of the two packages. \<open>ErrorsNew s\<close> is Go's \<open>errors.New(s)\<close>;
  \<open>ErrExternal s\<close> is an error handed back by a collaborator outside the
  sources (the token generator, the WebRTC library, the video switch callback).
\<close>

datatype error =
    ErrSessionNotFound
  | ErrSessionAlreadyExists
  | ErrWebRTCConnectionNotFound
  | ErrorsNew string
  | ErrExternal string

text \<open>
  Modelled from the spec: \<open>types.MemberProfile\<close> is declared outside the sources.
  The fields are the ones the sources assign or read (\<open>session.New\<close>, the broadcasts)
  and the capability set of the data model. A field that a Go composite literal does not
  mention has its zero value.
\<close>

record MemberProfile =
  Name :: string
  IsAdmin :: bool
  CanLogin :: bool
  CanConnect :: bool
  CanWatch :: bool
  CanHost :: bool
  CanAccessClipboard :: bool
  CanSeeInactiveCursors :: bool

text \<open>
  A \<open>SessionCtx\<close> object. \<open>ID\<close> is the field \<open>id\<close> (read through \<open>session.ID()\<close>).
  The back pointer to the manager and the logger are left out. Modelled from the spec:
  \<open>IsConnected\<close> and \<open>IsWatching\<close> are what \<open>session.State()\<close> returns; the
  method is declared outside the sources and derives both from the session's transport
  and peer handles.
\<close>

record SessionCtx =
  ID :: string
  token :: string
  profile :: MemberProfile
  IsConnected :: bool
  IsWatching :: bool

text \<open>
  Sessions are shared by pointer: the session map, the host slot, the cursor map and the
  callers all hold the same object. A pointer is an index into a store of session
  objects that only grows, so a pointer the code holds is always below the length of the
  store; a \<open>types.Session\<close> interface value is a pointer or nil.
\<close>

type_synonym ref = nat
type_synonym Session = "ref option"

text \<open>
  Modelled from the spec: \<open>types.Cursor\<close> is declared outside the sources; it is a
  position sample.
\<close>

datatype Cursor = Cursor (X: int) (Y: int)

type_synonym Payload = string

text \<open>
  What the manager does to its collaborators, in call order: events handed to the
  emitter, the two peer teardown calls of \<open>Delete\<close>, and the deliveries of the
  broadcasts (\<open>session.Send\<close>). The collaborators themselves are outside the sources,
  so a call is recorded, not executed.
\<close>

datatype effect =
    Emit string Session
  | WebSocketPeerDestroy ref string
  | WebRTCPeerDestroy ref
  | Send ref string Payload

record Config =
  APIToken :: string
  ImplicitHosting :: bool
  InactiveCursors :: bool
  CookieEnabled :: bool
  MercifulReconnect :: bool

section \<open>Session manager\<close>

text \<open>
  The Go maps are association lists read with \<open>map_of\<close>, written with
  \<open>AList.update\<close> and \<open>AList.delete\<close>; the list order stands for the iteration
  order, which Go leaves unspecified. The mutexes are not modelled: every operation is
  one atomic step.
\<close>

record SessionManagerCtx =
  config :: Config
  tokens :: "(string \<times> string) list"
  sessions :: "(string \<times> ref) list"
  host :: Session
  cursors :: "(Session \<times> Cursor list) list"
  apiSession :: Session
  heap :: "SessionCtx list"
  trace :: "effect list"

definition alloc :: "SessionManagerCtx \<Rightarrow> SessionCtx \<Rightarrow> ref \<times> SessionManagerCtx" where
  "alloc manager session = (length (heap manager), manager\<lparr>heap := heap manager @ [session]\<rparr>)"

definition emit :: "SessionManagerCtx \<Rightarrow> string \<Rightarrow> Session \<Rightarrow> SessionManagerCtx" where
  "emit manager name payload = manager\<lparr>trace := trace manager @ [Emit name payload]\<rparr>"

definition New :: "Config \<Rightarrow> SessionManagerCtx" where
  "New cfg =
    (let manager = \<lparr>config = cfg, tokens = [], sessions = [], host = None, cursors = [],
                     apiSession = None, heap = [], trace = []\<rparr>
     in if APIToken cfg \<noteq> []
        then (let (r, manager') = alloc manager
                    \<lparr>ID = ''API'', token = APIToken cfg,
                     profile = \<lparr>Name = ''API Session'', IsAdmin = True, CanLogin = True,
                                CanConnect = False, CanWatch = True, CanHost = True,
                                CanAccessClipboard = True, CanSeeInactiveCursors = False\<rparr>,
                     IsConnected = False, IsWatching = False\<rparr>
              in manager'\<lparr>apiSession := Some r\<rparr>)
        else manager)"

text \<open>
  \<open>Create\<close>. The second argument is what \<open>utils.NewUID(64)\<close> returned: the token
  generator is outside the sources and random, so its result is an input.
\<close>

definition Create ::
  "SessionManagerCtx \<Rightarrow> error + string \<Rightarrow> string \<Rightarrow> MemberProfile
     \<Rightarrow> (error + Session \<times> string) \<times> SessionManagerCtx" where
  "Create manager uid id' profile' =
    (case uid of
       Inl err \<Rightarrow> (Inl err, manager)
     | Inr token' \<Rightarrow>
         if map_of (sessions manager) id' \<noteq> None then (Inl ErrSessionAlreadyExists, manager)
         else if map_of (tokens manager) token' \<noteq> None
           then (Inl (ErrorsNew ''session token already exists''), manager)
         else
           (let (r, m1) = alloc manager
                   \<lparr>ID = id', token = token', profile = profile',
                    IsConnected = False, IsWatching = False\<rparr>;
                m2 = m1\<lparr>tokens := AList.update token' id' (tokens m1)\<rparr>;
                m3 = m2\<lparr>sessions := AList.update id' r (sessions m2)\<rparr>
            in (Inr (Some r, token'), emit m3 ''created'' (Some r))))"

text \<open>
  \<open>Update\<close>. \<open>session.profileChanged()\<close> is a method of this package that is not in
  the sources; it is the first argument.
\<close>

definition Update ::
  "(ref \<Rightarrow> SessionManagerCtx \<Rightarrow> SessionManagerCtx) \<Rightarrow> SessionManagerCtx \<Rightarrow> string
     \<Rightarrow> MemberProfile \<Rightarrow> error option \<times> SessionManagerCtx" where
  "Update profileChanged manager id' profile' =
    (case map_of (sessions manager) id' of
       None \<Rightarrow> (Some ErrSessionNotFound, manager)
     | Some r \<Rightarrow>
         (let m1 = manager\<lparr>heap := (heap manager)[r := (heap manager ! r)\<lparr>profile := profile'\<rparr>]\<rparr>;
              m2 = emit m1 ''profile_changed'' (Some r)
          in (None, profileChanged r m2)))"

definition Delete :: "SessionManagerCtx \<Rightarrow> string \<Rightarrow> error option \<times> SessionManagerCtx" where
  "Delete manager id' =
    (case map_of (sessions manager) id' of
       None \<Rightarrow> (Some ErrSessionNotFound, manager)
     | Some r \<Rightarrow>
         (let session = heap manager ! r;
              m1 = manager\<lparr>tokens := AList.delete (token session) (tokens manager)\<rparr>;
              m2 = m1\<lparr>sessions := AList.delete id' (sessions m1)\<rparr>;
              m3 = (if IsConnected (heap m2 ! r)
                    then m2\<lparr>trace := trace m2 @ [WebSocketPeerDestroy r ''session deleted'']\<rparr>
                    else m2);
              m4 = (if IsWatching (heap m3 ! r)
                    then m3\<lparr>trace := trace m3 @ [WebRTCPeerDestroy r]\<rparr>
                    else m3)
          in (None, emit m4 ''deleted'' (Some r))))"

text \<open>
  \<open>Delete\<close> above records its three calls after the unlock and lets none of them call back
  into the registry. \<open>Delete_with\<close> is the same code with the callees as arguments: the
  two peer teardowns and the listeners that the emitter runs, synchronously, for the
  \<open>deleted\<close> event (registered through \<open>OnDeleted\<close>). Each is handed the registry and
  returns it, so that it may call any operation of the registry. The session state is
  read again after the first teardown, as in the source. \<open>recording\<close> are the callees
  that do nothing; with them \<open>Delete_with\<close> is \<open>Delete\<close>.
\<close>

record callees =
  WebSocketPeer_Destroy :: "ref \<Rightarrow> string \<Rightarrow> SessionManagerCtx \<Rightarrow> SessionManagerCtx"
  WebRTCPeer_Destroy :: "ref \<Rightarrow> SessionManagerCtx \<Rightarrow> SessionManagerCtx"
  deleted_listeners :: "Session \<Rightarrow> SessionManagerCtx \<Rightarrow> SessionManagerCtx"

definition Delete_with ::
  "callees \<Rightarrow> SessionManagerCtx \<Rightarrow> string \<Rightarrow> error option \<times> SessionManagerCtx" where
  "Delete_with env manager id' =
    (case map_of (sessions manager) id' of
       None \<Rightarrow> (Some ErrSessionNotFound, manager)
     | Some r \<Rightarrow>
         (let session = heap manager ! r;
              m1 = manager\<lparr>tokens := AList.delete (token session) (tokens manager)\<rparr>;
              m2 = m1\<lparr>sessions := AList.delete id' (sessions m1)\<rparr>;
              m3 = (if IsConnected (heap m2 ! r)
                    then WebSocketPeer_Destroy env r ''session deleted''
                           (m2\<lparr>trace := trace m2 @ [WebSocketPeerDestroy r ''session deleted'']\<rparr>)
                    else m2);
              m4 = (if IsWatching (heap m3 ! r)
                    then WebRTCPeer_Destroy env r (m3\<lparr>trace := trace m3 @ [WebRTCPeerDestroy r]\<rparr>)
                    else m3)
          in (None, deleted_listeners env (Some r) (emit m4 ''deleted'' (Some r)))))"

definition recording :: callees where
  "recording = \<lparr>WebSocketPeer_Destroy = (\<lambda>r reason m. m), WebRTCPeer_Destroy = (\<lambda>r m. m),
                deleted_listeners = (\<lambda>s m. m)\<rparr>"

text \<open>\<open>Get\<close> and \<open>GetByToken\<close> return the pair (session, ok) as an option.\<close>

definition Get :: "SessionManagerCtx \<Rightarrow> string \<Rightarrow> Session" where
  "Get manager id' = map_of (sessions manager) id'"

definition GetByToken :: "SessionManagerCtx \<Rightarrow> string \<Rightarrow> Session" where
  "GetByToken manager token' =
    (case map_of (tokens manager) token' of
       Some id' \<Rightarrow> Get manager id'
     | None \<Rightarrow>
         (case apiSession manager of
            Some a \<Rightarrow> if token (heap manager ! a) = token' then Some a else None
          | None \<Rightarrow> None))"


subsection \<open>Host\<close>




subsection \<open>Cursors\<close>



subsection \<open>Broadcasts\<close>










section \<open>Peer negotiation engine\<close>

datatype SDPType = SDPTypeOffer | SDPTypePranswer | SDPTypeAnswer | SDPTypeRollback

record SessionDescription =
  Type :: SDPType
  SDP :: string

type_synonym ICECandidateInit = string

text \<open>
  The WebRTC library is outside the sources. Its peer connection is an object of an
  arbitrary type \<open>'c\<close>, and the methods the engine calls are the fields of \<open>pion\<close>:
  each takes the object and returns its result with the object after the call.
  \<open>pc_gatherComplete\<close> is the receive on the channel that
  \<open>GatheringCompletePromise\<close> returned: \<open>None\<close> when nothing is ever sent on it, so
  that the receiver never resumes.
\<close>

record 'c pion =
  pc_CreateOffer :: "'c \<Rightarrow> bool \<Rightarrow> (error + SessionDescription) \<times> 'c"
  pc_CreateAnswer :: "'c \<Rightarrow> (error + SessionDescription) \<times> 'c"
  pc_GatheringCompletePromise :: "'c \<Rightarrow> 'c"
  pc_SetLocalDescription :: "'c \<Rightarrow> SessionDescription \<Rightarrow> error option \<times> 'c"
  pc_gatherComplete :: "'c \<Rightarrow> 'c option"
  pc_LocalDescription :: "'c \<Rightarrow> SessionDescription option"
  pc_SetRemoteDescription :: "'c \<Rightarrow> SessionDescription \<Rightarrow> error option \<times> 'c"
  pc_AddICECandidate :: "'c \<Rightarrow> ICECandidateInit \<Rightarrow> error option \<times> 'c"
  pc_Close :: "'c \<Rightarrow> error option \<times> 'c"

text \<open>The calls the engine makes, in order, and the lines it logs.\<close>

datatype pc_call =
    CallCreateOffer bool
  | CallCreateAnswer
  | CallGatheringCompletePromise
  | CallSetLocalDescription SessionDescription
  | RecvGatherComplete
  | CallLocalDescription
  | CallSetRemoteDescription SessionDescription
  | CallAddICECandidate ICECandidateInit
  | CallClose
  | CallChangeVideo string

datatype log_entry =
    LogInfo string string
  | LogErr "error option" string

text \<open>
  \<open>WebRTCPeerCtx\<close>. \<open>connection\<close> is the nullable pointer; \<open>calls\<close> and
  \<open>logger\<close> record the side effects. The mutex is not modelled (an operation is one
  atomic step) and the data channel, which no operation here reads, is left out.
\<close>

record 'c WebRTCPeerCtx =
  connection :: "'c option"
  changeVideo :: "string \<Rightarrow> error option"
  iceTrickle :: bool
  calls :: "pc_call list"
  logger :: "log_entry list"

definition called :: "'c WebRTCPeerCtx \<Rightarrow> pc_call \<Rightarrow> 'c WebRTCPeerCtx" where
  "called peer c = peer\<lparr>calls := calls peer @ [c]\<rparr>"

text \<open>
  \<open>setLocalDescription\<close> runs under the caller's lock after the caller has checked the
  handle; \<open>c\<close> is the object \<open>peer.connection\<close> points to. The result is \<open>None\<close>
  when the call never returns.
\<close>

definition setLocalDescription ::
  "'c pion \<Rightarrow> 'c WebRTCPeerCtx \<Rightarrow> 'c \<Rightarrow> SessionDescription
     \<Rightarrow> ((error + SessionDescription option) \<times> 'c WebRTCPeerCtx) option" where
  "setLocalDescription lib peer c description =
    (if \<not> iceTrickle peer then
       (let c1 = pc_GatheringCompletePromise lib c;
            p1 = called peer CallGatheringCompletePromise;
            (err, c2) = pc_SetLocalDescription lib c1 description;
            p2 = called p1 (CallSetLocalDescription description)
        in case err of
             Some e \<Rightarrow> Some (Inl e, p2\<lparr>connection := Some c2\<rparr>)
           | None \<Rightarrow>
               (case pc_gatherComplete lib c2 of
                  None \<Rightarrow> None
                | Some c3 \<Rightarrow>
                    Some (Inr (pc_LocalDescription lib c3),
                          (called (called p2 RecvGatherComplete) CallLocalDescription)
                            \<lparr>connection := Some c3\<rparr>)))
     else
       (let (err, c1) = pc_SetLocalDescription lib c description;
            p1 = called peer (CallSetLocalDescription description)
        in case err of
             Some e \<Rightarrow> Some (Inl e, p1\<lparr>connection := Some c1\<rparr>)
           | None \<Rightarrow>
               Some (Inr (pc_LocalDescription lib c1),
                     (called p1 CallLocalDescription)\<lparr>connection := Some c1\<rparr>)))"

definition CreateOffer ::
  "'c pion \<Rightarrow> 'c WebRTCPeerCtx \<Rightarrow> bool
     \<Rightarrow> ((error + SessionDescription option) \<times> 'c WebRTCPeerCtx) option" where
  "CreateOffer lib peer ICERestart =
    (case connection peer of
       None \<Rightarrow> Some (Inl ErrWebRTCConnectionNotFound, peer)
     | Some c \<Rightarrow>
         (let (res, c1) = pc_CreateOffer lib c ICERestart;
              p1 = (called peer (CallCreateOffer ICERestart))\<lparr>connection := Some c1\<rparr>
          in case res of
               Inl err \<Rightarrow> Some (Inl err, p1)
             | Inr offer \<Rightarrow> setLocalDescription lib p1 c1 offer))"

definition CreateAnswer ::
  "'c pion \<Rightarrow> 'c WebRTCPeerCtx
     \<Rightarrow> ((error + SessionDescription option) \<times> 'c WebRTCPeerCtx) option" where
  "CreateAnswer lib peer =
    (case connection peer of
       None \<Rightarrow> Some (Inl ErrWebRTCConnectionNotFound, peer)
     | Some c \<Rightarrow>
         (let (res, c1) = pc_CreateAnswer lib c;
              p1 = (called peer CallCreateAnswer)\<lparr>connection := Some c1\<rparr>
          in case res of
               Inl err \<Rightarrow> Some (Inl err, p1)
             | Inr answer \<Rightarrow> setLocalDescription lib p1 c1 answer))"

definition SetOffer ::
  "'c pion \<Rightarrow> 'c WebRTCPeerCtx \<Rightarrow> string \<Rightarrow> error option \<times> 'c WebRTCPeerCtx" where
  "SetOffer lib peer sdp =
    (case connection peer of
       None \<Rightarrow> (Some ErrWebRTCConnectionNotFound, peer)
     | Some c \<Rightarrow>
         (let d = \<lparr>Type = SDPTypeOffer, SDP = sdp\<rparr>;
              (err, c1) = pc_SetRemoteDescription lib c d
          in (err, (called peer (CallSetRemoteDescription d))\<lparr>connection := Some c1\<rparr>)))"

definition SetAnswer ::
  "'c pion \<Rightarrow> 'c WebRTCPeerCtx \<Rightarrow> string \<Rightarrow> error option \<times> 'c WebRTCPeerCtx" where
  "SetAnswer lib peer sdp =
    (case connection peer of
       None \<Rightarrow> (Some ErrWebRTCConnectionNotFound, peer)
     | Some c \<Rightarrow>
         (let d = \<lparr>Type = SDPTypeAnswer, SDP = sdp\<rparr>;
              (err, c1) = pc_SetRemoteDescription lib c d
          in (err, (called peer (CallSetRemoteDescription d))\<lparr>connection := Some c1\<rparr>)))"

definition SetCandidate ::
  "'c pion \<Rightarrow> 'c WebRTCPeerCtx \<Rightarrow> ICECandidateInit \<Rightarrow> error option \<times> 'c WebRTCPeerCtx" where
  "SetCandidate lib peer candidate =
    (case connection peer of
       None \<Rightarrow> (Some ErrWebRTCConnectionNotFound, peer)
     | Some c \<Rightarrow>
         (let (err, c1) = pc_AddICECandidate lib c candidate
          in (err, (called peer (CallAddICECandidate candidate))\<lparr>connection := Some c1\<rparr>)))"

definition SetVideoID ::
  "'c pion \<Rightarrow> 'c WebRTCPeerCtx \<Rightarrow> string \<Rightarrow> error option \<times> 'c WebRTCPeerCtx" where
  "SetVideoID lib peer videoID =
    (case connection peer of
       None \<Rightarrow> (Some ErrWebRTCConnectionNotFound, peer)
     | Some c \<Rightarrow>
         (let p1 = peer\<lparr>logger := logger peer @ [LogInfo videoID ''change video id'']\<rparr>
          in (changeVideo p1 videoID, called p1 (CallChangeVideo videoID))))"

definition Destroy :: "'c pion \<Rightarrow> 'c WebRTCPeerCtx \<Rightarrow> 'c WebRTCPeerCtx" where
  "Destroy lib peer =
    (case connection peer of
       None \<Rightarrow> peer
     | Some c \<Rightarrow>
         (let (err, c1) = pc_Close lib c;
              p1 = called peer CallClose;
              p2 = p1\<lparr>logger := logger p1 @ [LogErr err ''peer connection destroyed'']\<rparr>
          in p2\<lparr>connection := None\<rparr>))"

text \<open>A test double of the library and an engine that was never connected.\<close>

definition stub_pion :: "nat pion" where
  "stub_pion =
    \<lparr>pc_CreateOffer = (\<lambda>c r. (Inr \<lparr>Type = SDPTypeOffer, SDP = ''v=0''\<rparr>, c)),
     pc_CreateAnswer = (\<lambda>c. (Inr \<lparr>Type = SDPTypeAnswer, SDP = ''v=0''\<rparr>, c)),
     pc_GatheringCompletePromise = (\<lambda>c. c),
     pc_SetLocalDescription = (\<lambda>c d. (None, c)),
     pc_gatherComplete = (\<lambda>c. Some c),
     pc_LocalDescription = (\<lambda>c. None),
     pc_SetRemoteDescription = (\<lambda>c d. (None, c)),
     pc_AddICECandidate = (\<lambda>c i. (None, c)),
     pc_Close = (\<lambda>c. (None, c))\<rparr>"

definition idle_peer :: "nat WebRTCPeerCtx" where
  "idle_peer = \<lparr>connection = None, changeVideo = (\<lambda>v. None), iceTrickle = False,
                calls = [], logger = []\<rparr>"

text \<open>An engine with a live connection, in trickle mode.\<close>

definition live_peer :: "nat WebRTCPeerCtx" where
  "live_peer = \<lparr>connection = Some 7, changeVideo = (\<lambda>v. None), iceTrickle = True,
                calls = [], logger = []\<rparr>"






section \<open>Runs and reference definitions\<close>










text \<open>Concrete registries used to exercise the theorems.\<close>

definition cfg_plain :: Config where
  "cfg_plain = \<lparr>APIToken = [], ImplicitHosting = False, InactiveCursors = False,
                CookieEnabled = False, MercifulReconnect = False\<rparr>"

definition cfg_api :: Config where
  "cfg_api = \<lparr>APIToken = ''T'', ImplicitHosting = False, InactiveCursors = False,
              CookieEnabled = False, MercifulReconnect = False\<rparr>"

definition guest :: MemberProfile where
  "guest = \<lparr>Name = ''guest'', IsAdmin = False, CanLogin = True, CanConnect = True,
            CanWatch = True, CanHost = True, CanAccessClipboard = False,
            CanSeeInactiveCursors = False\<rparr>"

definition one_session :: SessionManagerCtx where
  "one_session = snd (Create (New cfg_plain) (Inr ''t1'') ''u1'' guest)"










section \<open>Properties of the session registry\<close>

subsection \<open>Consistency of the token map and the session map\<close>

















subsection \<open>Failed mutations\<close>

text \<open>
  C2, as the code has it. \<open>Create\<close> with a registered id fails and changes nothing; the
  error is \<open>ErrSessionAlreadyExists\<close> when the token generator returned a token, and the
  generator's own error when it failed, since the token is drawn before the id is looked
  up. Every failing \<open>Create\<close> leaves the registry as it was. \<open>Update\<close> and
  \<open>Delete\<close> with an unknown id fail with \<open>ErrSessionNotFound\<close> and change nothing.
  The whole registry is unchanged, so the session map, the token map, the host slot, the
  cursor map and the record of emitted events are.
\<close>

theorem failed_mutations_change_nothing:
  "(map_of (sessions manager) id' \<noteq> None \<longrightarrow>
      Create manager uid id' profile'
        = (Inl (case uid of Inl err \<Rightarrow> err | Inr t \<Rightarrow> ErrSessionAlreadyExists), manager))
   \<and> (fst (Create manager uid id' profile') = Inl e \<longrightarrow>
        snd (Create manager uid id' profile') = manager)
   \<and> (map_of (sessions manager) id' = None \<longrightarrow>
        Update profileChanged manager id' profile' = (Some ErrSessionNotFound, manager)
        \<and> Delete manager id' = (Some ErrSessionNotFound, manager))"
  by (cases uid) (auto simp add: Create_def Update_def Delete_def alloc_def Let_def split: if_splits)

theorem failed_mutations_change_nothing_witness:
  "map_of (sessions one_session) ''u1'' \<noteq> None
   \<and> Create one_session (Inr ''t2'') ''u1'' guest = (Inl ErrSessionAlreadyExists, one_session)
   \<and> map_of (sessions one_session) ''u2'' = None
   \<and> Update (\<lambda>r m. m) one_session ''u2'' guest = (Some ErrSessionNotFound, one_session)
   \<and> Delete one_session ''u2'' = (Some ErrSessionNotFound, one_session)"
proof -
  have w: "sessions one_session = [(''u1'', 0)]"
    by (simp add: one_session_def Create_def New_def cfg_plain_def alloc_def emit_def Let_def)
  show ?thesis
    using w failed_mutations_change_nothing [of one_session "''u1''" "Inr ''t2''" guest]
      failed_mutations_change_nothing [of one_session "''u2''" "Inr ''t2''" guest _ "\<lambda>r m. m"]
    by simp
qed

text \<open>
  C2 as stated fails: with the id \<open>u1\<close> registered and a failing token generator,
  \<open>Create\<close> returns the generator's error, not \<open>ErrSessionAlreadyExists\<close>.
\<close>

theorem duplicate_id_other_error:
  "map_of (sessions one_session) ''u1'' = Some 0
   \<and> Create one_session (Inl (ErrExternal ''rand'')) ''u1'' guest
       = (Inl (ErrExternal ''rand''), one_session)
   \<and> fst (Create one_session (Inl (ErrExternal ''rand'')) ''u1'' guest)
       \<noteq> Inl ErrSessionAlreadyExists"
  by (simp add: one_session_def Create_def New_def cfg_plain_def alloc_def emit_def Let_def)


subsection \<open>Lookups\<close>










text \<open>
  C10. \<open>Create\<close> compares the generated token with the keys of the token map only: when
  the token equals the token of the service session and is not a key of the token map,
  \<open>Create\<close> with an unregistered id succeeds. Before the call \<open>GetByToken\<close> with that
  token returns the service session; after it, it returns the new registered session,
  although the service session is still there with the same token.
\<close>

theorem Create_ignores_service_token:
  assumes "apiSession manager = Some a" and "a < length (heap manager)"
    and "token (heap manager ! a) = token'"
    and "map_of (sessions manager) id' = None" and "map_of (tokens manager) token' = None"
  shows "GetByToken manager token' = Some a
    \<and> fst (Create manager (Inr token') id' profile') = Inr (Some (length (heap manager)), token')
    \<and> apiSession (snd (Create manager (Inr token') id' profile')) = Some a
    \<and> token (heap (snd (Create manager (Inr token') id' profile')) ! a) = token'
    \<and> GetByToken (snd (Create manager (Inr token') id' profile')) token' = Some (length (heap manager))
    \<and> GetByToken (snd (Create manager (Inr token') id' profile')) token' \<noteq> Some a"
  using assms
  by (simp add: Create_def alloc_def emit_def Let_def GetByToken_def Get_def update_conv' nth_append)

theorem Create_ignores_service_token_witness:
  "apiSession (New cfg_api) = Some 0 \<and> 0 < length (heap (New cfg_api))
   \<and> token (heap (New cfg_api) ! 0) = ''T''
   \<and> map_of (sessions (New cfg_api)) ''u1'' = None \<and> map_of (tokens (New cfg_api)) ''T'' = None
   \<and> GetByToken (New cfg_api) ''T'' = Some 0
   \<and> fst (Create (New cfg_api) (Inr ''T'') ''u1'' guest) = Inr (Some 1, ''T'')
   \<and> GetByToken (snd (Create (New cfg_api) (Inr ''T'') ''u1'' guest)) ''T'' = Some 1"
proof -
  have h: "apiSession (New cfg_api) = Some 0" "0 < length (heap (New cfg_api))"
    "token (heap (New cfg_api) ! 0) = ''T''"
    "map_of (sessions (New cfg_api)) ''u1'' = None" "map_of (tokens (New cfg_api)) ''T'' = None"
    by (simp_all add: New_def cfg_api_def alloc_def Let_def)
  have l: "length (heap (New cfg_api)) = 1"
    by (simp add: New_def cfg_api_def alloc_def Let_def)
  show ?thesis
    using h l Create_ignores_service_token [OF h, of guest]
    by simp
qed


subsection \<open>Host slot\<close>

lemma Delete_with_recording: "Delete_with recording manager id' = Delete manager id'"
  by (simp add: Delete_with_def Delete_def recording_def Let_def split: option.split)





subsection \<open>Cursor ledger\<close>











subsection \<open>Broadcasts\<close>






section \<open>Properties of the peer negotiation engine\<close>

text \<open>
  C6. Each of the six negotiation operations, called on an engine whose connection handle
  is absent, returns \<open>ErrWebRTCConnectionNotFound\<close> and leaves the engine as it was: no
  call on the library, no log line, no change of the handle.
\<close>

theorem negotiation_without_connection:
  assumes "connection peer = None"
  shows "CreateOffer lib peer ICERestart = Some (Inl ErrWebRTCConnectionNotFound, peer)
    \<and> CreateAnswer lib peer = Some (Inl ErrWebRTCConnectionNotFound, peer)
    \<and> SetOffer lib peer sdp = (Some ErrWebRTCConnectionNotFound, peer)
    \<and> SetAnswer lib peer sdp' = (Some ErrWebRTCConnectionNotFound, peer)
    \<and> SetCandidate lib peer candidate = (Some ErrWebRTCConnectionNotFound, peer)
    \<and> SetVideoID lib peer videoID = (Some ErrWebRTCConnectionNotFound, peer)"
  using assms
  by (simp add: CreateOffer_def CreateAnswer_def SetOffer_def SetAnswer_def
      SetCandidate_def SetVideoID_def)

theorem negotiation_without_connection_witness:
  "connection idle_peer = None
   \<and> CreateOffer stub_pion idle_peer False = Some (Inl ErrWebRTCConnectionNotFound, idle_peer)
   \<and> CreateAnswer stub_pion idle_peer = Some (Inl ErrWebRTCConnectionNotFound, idle_peer)
   \<and> SetOffer stub_pion idle_peer ''o'' = (Some ErrWebRTCConnectionNotFound, idle_peer)
   \<and> SetAnswer stub_pion idle_peer ''a'' = (Some ErrWebRTCConnectionNotFound, idle_peer)
   \<and> SetCandidate stub_pion idle_peer ''c'' = (Some ErrWebRTCConnectionNotFound, idle_peer)
   \<and> SetVideoID stub_pion idle_peer ''v'' = (Some ErrWebRTCConnectionNotFound, idle_peer)"
proof -
  have h: "connection idle_peer = None"
    by (simp add: idle_peer_def)
  show ?thesis
    using h negotiation_without_connection [OF h, of stub_pion False "''o''" "''a''" "''c''" "''v''"]
    by simp
qed

text \<open>
  C7. \<open>Destroy\<close> has no error result. After it the connection handle is absent; on an
  engine without a connection it changes nothing; it closes the connection once when
  there is one and not at all otherwise, so a second \<open>Destroy\<close> in a row changes
  nothing and closes nothing; and every negotiation operation after a \<open>Destroy\<close>
  returns \<open>ErrWebRTCConnectionNotFound\<close>.
\<close>

theorem Destroy_idempotent:
  "connection (Destroy lib peer) = None
   \<and> Destroy lib (Destroy lib peer) = Destroy lib peer
   \<and> Destroy lib (peer\<lparr>connection := None\<rparr>) = peer\<lparr>connection := None\<rparr>
   \<and> count_list (calls (Destroy lib peer)) CallClose
       = count_list (calls peer) CallClose + (if connection peer = None then 0 else 1)
   \<and> count_list (calls (Destroy lib (Destroy lib peer))) CallClose
       = count_list (calls (Destroy lib peer)) CallClose
   \<and> CreateOffer lib (Destroy lib peer) ICERestart
       = Some (Inl ErrWebRTCConnectionNotFound, Destroy lib peer)
   \<and> CreateAnswer lib (Destroy lib peer) = Some (Inl ErrWebRTCConnectionNotFound, Destroy lib peer)
   \<and> SetOffer lib (Destroy lib peer) sdp = (Some ErrWebRTCConnectionNotFound, Destroy lib peer)
   \<and> SetAnswer lib (Destroy lib peer) sdp' = (Some ErrWebRTCConnectionNotFound, Destroy lib peer)
   \<and> SetCandidate lib (Destroy lib peer) candidate
       = (Some ErrWebRTCConnectionNotFound, Destroy lib peer)
   \<and> SetVideoID lib (Destroy lib peer) videoID
       = (Some ErrWebRTCConnectionNotFound, Destroy lib peer)"
proof -
  have gone: "connection (Destroy lib peer) = None"
    by (simp add: Destroy_def called_def split: option.split prod.split)
  have again: "Destroy lib (Destroy lib peer) = Destroy lib peer"
    using gone by (simp add: Destroy_def [of lib "Destroy lib peer"])
  have never: "Destroy lib (peer\<lparr>connection := None\<rparr>) = peer\<lparr>connection := None\<rparr>"
    by (simp add: Destroy_def)
  have closes: "count_list (calls (Destroy lib peer)) CallClose
       = count_list (calls peer) CallClose + (if connection peer = None then 0 else 1)"
    by (simp add: Destroy_def called_def split: option.split prod.split)
  show ?thesis
    using gone again never closes
    by (simp add: CreateOffer_def CreateAnswer_def SetOffer_def SetAnswer_def
      SetCandidate_def SetVideoID_def)
qed

theorem Destroy_idempotent_witness:
  "calls (Destroy stub_pion live_peer) = [CallClose]
   \<and> calls (Destroy stub_pion (Destroy stub_pion live_peer)) = [CallClose]
   \<and> connection (Destroy stub_pion live_peer) = None
   \<and> SetCandidate stub_pion (Destroy stub_pion live_peer) ''c''
       = (Some ErrWebRTCConnectionNotFound, Destroy stub_pion live_peer)"
  using Destroy_idempotent [of stub_pion live_peer False "''o''" "''a''" "''c''" "''v''"]
  by (simp add: Destroy_def live_peer_def stub_pion_def called_def)




end
